theory Spec2Isabelle
  imports Main "HOL-Library.Word"
begin

text \<open>
  A model of \<open>proxy.go\<close>, the konke gateway proxy: the frame codec, the message router,
  the state reconciler, the disconnect handler and the command gateway behind the REST
  routes. Calls are modelled one at a time, as functions from the proxy to the new
  proxy and the trace of what the call did; what the network answers is a parameter.
  The two long-running loops \<open>receive\<close> and \<open>sendHeartbeat\<close>, \<open>Start\<close> and the start-up
  code of \<open>main\<close> are not modelled; where the source starts a goroutine the trace
  records it.
\<close>

section \<open>Data model (proxy.go, lines 22-71)\<close>

text \<open>
  The YAML configuration structure. The nested Go structs are flattened: the field
  \<open>Gateway.Host\<close> is \<open>Gateway_Host\<close>, and so on. The two partitions of the device
  registry are Go maps from node id to entity id; a Go map is a partial function, and
  reading an absent key gives the zero value, the empty string (\<open>lookup\<close> below).
\<close>

record Config =
  Gateway_Host :: string
  Gateway_Port :: int
  Gateway_Username :: string
  Gateway_Password :: string
  Gateway_ZKID :: string
  Gateway_DeviceCount :: int
  Gateway_HeartbeatInterval :: int
  HTTPServer_Host :: string
  HTTPServer_Port :: int
  HomeAssistant_Host :: string
  HomeAssistant_Port :: int
  HomeAssistant_Token :: string
  Devices_Curtains :: "string \<rightharpoonup> string"
  Devices_Lights :: "string \<rightharpoonup> string"
  Logging_Level :: string
  Logging_File :: string

text \<open>
  The dynamic values an \<open>interface{}\<close> holds in this program: \<open>nil\<close>, a string, the
  \<open>map[string]string\<close> that \<open>login\<close> builds (\<open>JStrMap\<close>), and the results of decoding
  JSON, where an object is a \<open>map[string]interface{}\<close> (\<open>JObj\<close>). The two map types are
  different dynamic types, hence different constructors. A Go map of either type is
  represented by its association list in increasing key order without repeated keys,
  the order in which the encoder emits it. A decoded number is kept as its literal: Go
  stores a float64 there, and floating point is outside this model.
\<close>

datatype json =
    JNull
  | JBool bool
  | JNum string
  | JStr string
  | JArr "json list"
  | JObj "(string \<times> json) list"
  | JStrMap "(string \<times> string) list"

record Message =
  NodeID :: string
  Opcode :: string
  Arg :: json
  Requester :: string
  ReqID :: "64 word"
  Status :: string

type_synonym conn = nat

text \<open>
  The proxy. \<open>conn = None\<close> is the nil interface value; \<open>mutex\<close> tells whether the
  lock is held when a call starts. The dispatch table \<open>handlers\<close> of the Go struct is
  assigned once in \<open>NewProxy\<close> and never again, so it is the constant \<open>handlers\<close> below.
\<close>

record Proxy =
  config :: Config
  conn :: "conn option"
  devices :: "string \<rightharpoonup> string"
  entity :: "string \<rightharpoonup> string"
  mutex :: bool
  connected :: bool

definition lookup :: "(string \<rightharpoonup> string) \<Rightarrow> string \<Rightarrow> string" where
  "lookup m k = (case m k of None \<Rightarrow> [] | Some v \<Rightarrow> v)"

definition NewProxy :: "Config \<Rightarrow> Proxy" where
  "NewProxy cfg =
     \<lparr>config = cfg, conn = None, devices = Map.empty, entity = Map.empty,
      mutex = False, connected = False\<rparr>"

section \<open>Effects and outcomes\<close>

text \<open>
  What a call does beyond changing the proxy is a list of events, in the order of the
  source. A log line is named by the \<open>fmt.Println\<close> call that prints it; the operands
  printed after the text are not rendered.
\<close>

datatype logline =
    LogConnected
  | LogUnhandled
  | LogHeartbeat
  | LogSync
  | LogHAError
  | LogHASuccess
  | LogHAFailed
  | LogLoginSuccessful
  | LogLoginFailed
  | LogDisconnected
  | LogReconnectionFailed

record HttpRequest =
  Method :: string
  URL :: string
  Header :: "(string \<times> string) list"
  Body :: string

datatype goroutine = Receive | SendHeartbeat

datatype event =
    Println logline
  | Dial string
  | Write conn string
  | Close conn
  | Sleep nat
  | Do HttpRequest
  | Go goroutine

text \<open>
  How a call ends: it returns (with the Go return value), it panics, it blocks for ever
  on the mutex (\<open>sync.Mutex\<close> is not reentrant), or the finite description of the
  environment given to the model ends while the call is still looping.
\<close>

datatype 'a ctl = Returns 'a | Panics | Blocks | Unfinished

text \<open>
  The reply of the environment to one run of \<open>updateHomeAssistant\<close>:
  \<open>http.NewRequest\<close> rejects the URL (the source drops that error and goes on with a nil
  request), or \<open>client.Do\<close> fails, or it answers with a status code.
\<close>

datatype ha_reply = NewRequestError | DoError | DoStatus nat

section \<open>Text encoding of strings and integers\<close>

definition byte :: "char \<Rightarrow> nat" where
  "byte c = of_char c"

definition dquote :: char where
  "dquote = CHR 0x22"

definition bslash :: char where
  "bslash = CHR 0x5C"

fun tail_ok :: "(nat \<times> nat) list \<Rightarrow> string \<Rightarrow> bool" where
  "tail_ok [] cs = True"
| "tail_ok (r # rs) [] = False"
| "tail_ok (r # rs) (c # cs) = (fst r \<le> byte c \<and> byte c \<le> snd r \<and> tail_ok rs cs)"

text \<open>
  The ranges of the bytes that may follow the lead byte \<open>b\<close> of a UTF-8 sequence of
  two to four bytes (the tables \<open>first\<close> and \<open>acceptRanges\<close> of \<open>unicode/utf8\<close>); empty
  when \<open>b\<close> is no such lead byte.
\<close>

definition utf8_tail :: "nat \<Rightarrow> (nat \<times> nat) list" where
  "utf8_tail b =
     (if 0xC2 \<le> b \<and> b \<le> 0xDF then [(0x80, 0xBF)]
      else if b = 0xE0 then [(0xA0, 0xBF), (0x80, 0xBF)]
      else if b = 0xED then [(0x80, 0x9F), (0x80, 0xBF)]
      else if 0xE1 \<le> b \<and> b \<le> 0xEF then [(0x80, 0xBF), (0x80, 0xBF)]
      else if b = 0xF0 then [(0x90, 0xBF), (0x80, 0xBF), (0x80, 0xBF)]
      else if 0xF1 \<le> b \<and> b \<le> 0xF3 then [(0x80, 0xBF), (0x80, 0xBF), (0x80, 0xBF)]
      else if b = 0xF4 then [(0x80, 0x8F), (0x80, 0xBF), (0x80, 0xBF)]
      else [])"

text \<open>
  \<open>utf8.DecodeRuneInString\<close>, as far as the encoder and the decoder use it: the number
  of bytes of the well-formed UTF-8 sequence at the head of the string, and 0 where
  there is none (Go then reports \<open>RuneError\<close> with size 1).
\<close>

definition utf8_size :: "string \<Rightarrow> nat" where
  "utf8_size s =
     (case s of
        [] \<Rightarrow> 0
      | c # cs \<Rightarrow>
          if byte c < 0x80 then 1
          else if utf8_tail (byte c) \<noteq> [] \<and> tail_ok (utf8_tail (byte c)) cs
          then Suc (length (utf8_tail (byte c)))
          else 0)"

definition hexdigit :: "nat \<Rightarrow> char" where
  "hexdigit n = ''0123456789abcdef'' ! n"

text \<open>
  The bytes below 0x80 that \<open>encoding/json\<close> copies unchanged into a string literal
  (its \<open>htmlSafeSet\<close>): everything from the space on, but the quote, the backslash and
  the three characters escaped for HTML.
\<close>

definition htmlSafe :: "char \<Rightarrow> bool" where
  "htmlSafe c =
     (0x20 \<le> byte c \<and> byte c < 0x80 \<and> c \<noteq> dquote \<and> c \<noteq> bslash
      \<and> c \<noteq> CHR ''<'' \<and> c \<noteq> CHR ''>'' \<and> c \<noteq> CHR ''&'')"

definition escape_byte :: "char \<Rightarrow> string" where
  "escape_byte c =
     (if c = bslash \<or> c = dquote then [bslash, c]
      else if byte c = 0x08 then [bslash, CHR ''b'']
      else if byte c = 0x0C then [bslash, CHR ''f'']
      else if byte c = 0x0A then [bslash, CHR ''n'']
      else if byte c = 0x0D then [bslash, CHR ''r'']
      else if byte c = 0x09 then [bslash, CHR ''t'']
      else [bslash, CHR ''u'', CHR ''0'', CHR ''0'',
            hexdigit (byte c div 16), hexdigit (byte c mod 16)])"

definition line_sep :: string where
  "line_sep = [CHR 0xE2, CHR 0x80, CHR 0xA8]"

definition para_sep :: string where
  "para_sep = [CHR 0xE2, CHR 0x80, CHR 0xA9]"

text \<open>
  The body of a string literal as \<open>json.Marshal\<close> writes it: unsafe bytes below 0x80
  escaped, a byte that starts no UTF-8 sequence replaced by the escape of U+FFFD,
  U+2028 and U+2029 escaped, every other sequence copied.
\<close>

fun quote_chars :: "string \<Rightarrow> string" where
  "quote_chars [] = []"
| "quote_chars (c # cs) =
     (if byte c < 0x80 then (if htmlSafe c then [c] else escape_byte c) @ quote_chars cs
      else if utf8_size (c # cs) = 0 then bslash # ''ufffd'' @ quote_chars cs
      else if take 3 (c # cs) = line_sep then bslash # ''u2028'' @ quote_chars (drop 2 cs)
      else if take 3 (c # cs) = para_sep then bslash # ''u2029'' @ quote_chars (drop 2 cs)
      else c # take (utf8_size (c # cs) - 1) cs @ quote_chars (drop (utf8_size (c # cs) - 1) cs))"

definition go_quote :: "string \<Rightarrow> string" where
  "go_quote s = dquote # quote_chars s @ [dquote]"

definition digit :: "nat \<Rightarrow> char" where
  "digit n = ''0123456789'' ! n"

function dec_nat :: "nat \<Rightarrow> string" where
  "dec_nat n = (if n < 10 then [digit n] else dec_nat (n div 10) @ [digit (n mod 10)])"
  by pat_completeness auto
termination
  by (relation "measure id") auto

declare dec_nat.simps [simp del]

text \<open>The decimal text of an integer (\<open>%d\<close>, \<open>strconv.Itoa\<close>, the encoder's integers).\<close>

definition itoa :: "int \<Rightarrow> string" where
  "itoa i = (if i < 0 then CHR ''-'' # dec_nat (nat (- i)) else dec_nat (nat i))"

section \<open>The state reconciler and the message router (proxy.go, lines 175-265)\<close>

text \<open>
  \<open>updateHomeAssistant\<close> builds one request and hands it to the HTTP client. It never
  touches the proxy. With a nil request (\<open>NewRequestError\<close>) the next statement,
  \<open>req.Header.Set\<close>, panics.
\<close>

definition ha_url :: "Config \<Rightarrow> string \<Rightarrow> string" where
  "ha_url cfg entityID =
     ''http://'' @ HomeAssistant_Host cfg @ '':'' @ itoa (HomeAssistant_Port cfg)
       @ ''/api/states/'' @ entityID"

definition ha_request :: "Config \<Rightarrow> string \<Rightarrow> string \<Rightarrow> HttpRequest" where
  "ha_request cfg entityID state =
     \<lparr>Method = ''POST'',
      URL = ha_url cfg entityID,
      Header = [(''Authorization'', ''Bearer '' @ HomeAssistant_Token cfg),
                (''Content-Type'', ''application/json'')],
      Body = CHR ''{'' # go_quote ''state'' @ '':'' @ go_quote state @ ''}''\<rparr>"

definition updateHomeAssistant :: "ha_reply \<Rightarrow> Proxy \<Rightarrow> string \<Rightarrow> string \<Rightarrow> unit ctl \<times> event list" where
  "updateHomeAssistant reply p entityID state =
     (case reply of
        NewRequestError \<Rightarrow> (Panics, [])
      | DoError \<Rightarrow> (Returns (), [Do (ha_request (config p) entityID state), Println LogHAError])
      | DoStatus code \<Rightarrow>
          (Returns (),
           [Do (ha_request (config p) entityID state),
            Println (if code = 200 \<or> code = 201 then LogHASuccess else LogHAFailed)]))"

text \<open>The \<open>switch\<close> statement of \<open>handleSwitch\<close> (lines 201-208); \<open>None\<close> is its \<open>default\<close> branch.\<close>

definition normalize :: "string \<Rightarrow> string option" where
  "normalize arg =
     (if arg = ''ON'' \<or> arg = ''OPEN'' then Some ''on''
      else if arg = ''OFF'' \<or> arg = ''CLOSE'' then Some ''off''
      else None)"

text \<open>The registry lookup of \<open>handleSwitch\<close> (lines 211-216).\<close>

definition resolveEntity :: "Config \<Rightarrow> string \<Rightarrow> string" where
  "resolveEntity cfg nodeID =
     (if Devices_Curtains cfg nodeID \<noteq> None then lookup (Devices_Curtains cfg) nodeID
      else if Devices_Lights cfg nodeID \<noteq> None then lookup (Devices_Lights cfg) nodeID
      else [])"

text \<open>
  The last lines of \<open>handleSwitch\<close> (222-228), the spec's State Reconciler: compare with
  the recorded state, record the new one, then call the sink under \<open>switch.<entity>\<close>.
\<close>

definition reconcile :: "ha_reply \<Rightarrow> string \<Rightarrow> string \<Rightarrow> Proxy \<Rightarrow> unit ctl \<times> Proxy \<times> event list" where
  "reconcile reply entityID state p =
     (if lookup (entity p) entityID = state then (Returns (), p, [])
      else
        let p' = p\<lparr>entity := (entity p)(entityID \<mapsto> state)\<rparr>;
            r = updateHomeAssistant reply p' (''switch.'' @ entityID) state
        in (fst r, p', snd r))"

definition handleSwitch :: "ha_reply \<Rightarrow> Message \<Rightarrow> Proxy \<Rightarrow> unit ctl \<times> Proxy \<times> event list" where
  "handleSwitch reply msg p =
     (case Arg msg of
        JStr arg \<Rightarrow>
          let p' = p\<lparr>devices := (devices p)(NodeID msg \<mapsto> arg)\<rparr> in
          (case normalize arg of
             None \<Rightarrow> (Returns (), p', [])
           | Some state \<Rightarrow>
               let entityID = resolveEntity (config p') (NodeID msg) in
               if entityID = [] then (Returns (), p', [])
               else reconcile reply entityID state p')
      | _ \<Rightarrow> (Returns (), p, []))"

definition handleHeartbeat :: "Message \<Rightarrow> Proxy \<Rightarrow> unit ctl \<times> Proxy \<times> event list" where
  "handleHeartbeat msg p = (Returns (), p, [Println LogHeartbeat])"

definition handleSync :: "Message \<Rightarrow> Proxy \<Rightarrow> unit ctl \<times> Proxy \<times> event list" where
  "handleSync msg p = (Returns (), p, [Println LogSync])"

definition handleLogin :: "Message \<Rightarrow> Proxy \<Rightarrow> unit ctl \<times> Proxy \<times> event list" where
  "handleLogin msg p =
     (Returns (), p,
      [Println (if Status msg = ''success'' then LogLoginSuccessful else LogLoginFailed)])"

datatype handler = HandleHeartbeat | HandleSync | HandleSwitch | HandleLogin

text \<open>The dispatch table built in \<open>NewProxy\<close> (lines 82-87).\<close>

definition handlers :: "string \<rightharpoonup> handler" where
  "handlers =
     [''CCU_HB'' \<mapsto> HandleHeartbeat, ''SYNC_INFO'' \<mapsto> HandleSync,
      ''SWITCH'' \<mapsto> HandleSwitch, ''LOGIN'' \<mapsto> HandleLogin]"

fun call_handler :: "handler \<Rightarrow> ha_reply \<Rightarrow> Message \<Rightarrow> Proxy \<Rightarrow> unit ctl \<times> Proxy \<times> event list" where
  "call_handler HandleHeartbeat reply msg p = handleHeartbeat msg p"
| "call_handler HandleSync reply msg p = handleSync msg p"
| "call_handler HandleSwitch reply msg p = handleSwitch reply msg p"
| "call_handler HandleLogin reply msg p = handleLogin msg p"

definition handleMessage :: "ha_reply \<Rightarrow> Message \<Rightarrow> Proxy \<Rightarrow> unit ctl \<times> Proxy \<times> event list" where
  "handleMessage reply msg p =
     (case handlers (Opcode msg) of
        Some h \<Rightarrow> call_handler h reply msg p
      | None \<Rightarrow> (Returns (), p, [Println LogUnhandled]))"

text \<open>The network calls of a trace: socket traffic and HTTP requests.\<close>

fun is_network :: "event \<Rightarrow> bool" where
  "is_network (Dial a) = True"
| "is_network (Write c s) = True"
| "is_network (Close c) = True"
| "is_network (Do r) = True"
| "is_network e = False"

fun is_http :: "event \<Rightarrow> bool" where
  "is_http (Do r) = True"
| "is_http e = False"

section \<open>JSON encoding of a message (json.Marshal)\<close>

text \<open>
  \<open>encoding/json\<close> is a library of the Go distribution; the model follows its
  documented behaviour on the values of this program. \<open>json.Marshal\<close> writes the fields
  of \<open>Message\<close> in declaration order under their tags, leaves out \<open>reqId\<close> when it is 0
  and \<open>status\<close> when it is empty (\<open>omitempty\<close>), writes a nil interface as \<open>null\<close> and a
  map with its keys in increasing byte order. Strings are escaped as by \<open>go_quote\<close>
  above; for the bytes 0x08 and 0x0C releases of Go before 1.22 write \<open>\u0008\<close> and
  \<open>\u000c\<close> where later ones write \<open>\b\<close> and \<open>\f\<close>, which decode alike. A number inside
  an argument (only a decoded message has one) is written as its literal; this is what
  Go writes for a plain integer of magnitude up to \<open>2 ^ 53\<close> (see \<open>numbers_plain\<close>
  below), and other numbers are outside the model.
\<close>

fun join_comma :: "string list \<Rightarrow> string" where
  "join_comma [] = []"
| "join_comma [x] = x"
| "join_comma (x # y # ys) = x @ CHR '','' # join_comma (y # ys)"

fun marshal_value :: "json \<Rightarrow> string" where
  "marshal_value JNull = ''null''"
| "marshal_value (JBool b) = (if b then ''true'' else ''false'')"
| "marshal_value (JNum n) = n"
| "marshal_value (JStr s) = go_quote s"
| "marshal_value (JArr vs) = CHR ''['' # join_comma (map marshal_value vs) @ '']''"
| "marshal_value (JObj kvs) =
     CHR ''{'' # join_comma (map (\<lambda>kv. go_quote (fst kv) @ CHR '':'' # marshal_value (snd kv)) kvs) @ ''}''"
| "marshal_value (JStrMap kvs) =
     CHR ''{'' # join_comma (map (\<lambda>kv. go_quote (fst kv) @ CHR '':'' # go_quote (snd kv)) kvs) @ ''}''"

definition json_Marshal :: "Message \<Rightarrow> string" where
  "json_Marshal m =
     CHR ''{'' # go_quote ''nodeid'' @ CHR '':'' # go_quote (NodeID m)
       @ CHR '','' # go_quote ''opcode'' @ CHR '':'' # go_quote (Opcode m)
       @ CHR '','' # go_quote ''arg'' @ CHR '':'' # marshal_value (Arg m)
       @ CHR '','' # go_quote ''requester'' @ CHR '':'' # go_quote (Requester m)
       @ (if ReqID m = 0 then [] else CHR '','' # go_quote ''reqId'' @ CHR '':'' # itoa (sint (ReqID m)))
       @ (if Status m = [] then [] else CHR '','' # go_quote ''status'' @ CHR '':'' # go_quote (Status m))
       @ ''}''"

fun str_lt :: "string \<Rightarrow> string \<Rightarrow> bool" where
  "str_lt [] [] = False"
| "str_lt [] (y # ys) = True"
| "str_lt (x # xs) [] = False"
| "str_lt (x # xs) (y # ys) = (byte x < byte y \<or> (x = y \<and> str_lt xs ys))"

fun map_insert :: "string \<Rightarrow> 'a \<Rightarrow> (string \<times> 'a) list \<Rightarrow> (string \<times> 'a) list" where
  "map_insert k v [] = [(k, v)]"
| "map_insert k v (kv # kvs) =
     (if str_lt k (fst kv) then (k, v) # kv # kvs
      else if k = fst kv then (k, v) # kvs
      else kv # map_insert k v kvs)"

definition go_map :: "(string \<times> 'a) list \<Rightarrow> (string \<times> 'a) list" where
  "go_map kvs = foldl (\<lambda>m kv. map_insert (fst kv) (snd kv) m) [] kvs"

section \<open>JSON decoding\<close>

text \<open>
  \<open>json.Unmarshal\<close> first checks that the whole text is one JSON value, then stores it
  into the struct. The model cuts the text into tokens, reads the value by the grammar
  of JSON, and decodes the object member by member. Not modelled: the limit of 10000 on
  the nesting depth, and the conversion of a number inside an argument to float64
  (which fails on a literal out of range); the literal is kept instead.
\<close>

definition hexval :: "char \<Rightarrow> nat option" where
  "hexval c =
     (if 48 \<le> byte c \<and> byte c \<le> 57 then Some (byte c - 48)
      else if 97 \<le> byte c \<and> byte c \<le> 102 then Some (byte c - 87)
      else if 65 \<le> byte c \<and> byte c \<le> 70 then Some (byte c - 55)
      else None)"

text \<open>The four hexadecimal digits of a \<open>\u\<close> escape (\<open>getu4\<close>).\<close>

definition hex4 :: "string \<Rightarrow> nat option" where
  "hex4 s =
     (case s of
        a # b # c # d # r \<Rightarrow>
          (case (hexval a, hexval b, hexval c, hexval d) of
             (Some x, Some y, Some z, Some w) \<Rightarrow> Some (((x * 16 + y) * 16 + z) * 16 + w)
           | _ \<Rightarrow> None)
      | _ \<Rightarrow> None)"

definition replacement :: string where
  "replacement = [CHR 0xEF, CHR 0xBF, CHR 0xBD]"

definition is_surrogate :: "nat \<Rightarrow> bool" where
  "is_surrogate r = (0xD800 \<le> r \<and> r < 0xE000)"

text \<open>\<open>utf8.EncodeRune\<close>: a surrogate or a value beyond U+10FFFF is written as U+FFFD.\<close>

definition utf8_encode :: "nat \<Rightarrow> string" where
  "utf8_encode r =
     (if r < 0x80 then [char_of r]
      else if r < 0x800 then [char_of (0xC0 + r div 64), char_of (0x80 + r mod 64)]
      else if is_surrogate r \<or> 0x10FFFF < r then replacement
      else if r < 0x10000 then
        [char_of (0xE0 + r div 4096), char_of (0x80 + r div 64 mod 64), char_of (0x80 + r mod 64)]
      else
        [char_of (0xF0 + r div 262144), char_of (0x80 + r div 4096 mod 64),
         char_of (0x80 + r div 64 mod 64), char_of (0x80 + r mod 64)])"

text \<open>
  \<open>utf16.DecodeRune\<close> on the two halves of a surrogate pair; \<open>None\<close> where Go gives
  U+FFFD (the halves do not form a pair).
\<close>

definition utf16_pair :: "nat \<Rightarrow> nat \<Rightarrow> nat option" where
  "utf16_pair r1 r2 =
     (if 0xD800 \<le> r1 \<and> r1 < 0xDC00 \<and> 0xDC00 \<le> r2 \<and> r2 < 0xE000
      then Some ((r1 - 0xD800) * 1024 + (r2 - 0xDC00) + 0x10000)
      else None)"

definition prepend :: "string \<Rightarrow> (string \<times> string) option \<Rightarrow> (string \<times> string) option" where
  "prepend s r = (case r of None \<Rightarrow> None | Some (t, rest) \<Rightarrow> Some (s @ t, rest))"

text \<open>
  A string literal after its opening quote: the decoded string and what follows the
  closing quote. The scanner of \<open>encoding/json\<close> refuses a control character and an
  unknown escape; \<open>unquote\<close> then decodes the escapes, joins surrogate pairs and
  replaces what is not UTF-8 by U+FFFD.
\<close>

function unquote_chars :: "string \<Rightarrow> (string \<times> string) option" where
  "unquote_chars [] = None"
| "unquote_chars (c # cs) =
     (if c = dquote then Some ([], cs)
      else if c = bslash then
        (case cs of
           [] \<Rightarrow> None
         | e # r \<Rightarrow>
             if e = dquote \<or> e = bslash \<or> e = CHR ''/'' then prepend [e] (unquote_chars r)
             else if e = CHR ''b'' then prepend [CHR 0x08] (unquote_chars r)
             else if e = CHR ''f'' then prepend [CHR 0x0C] (unquote_chars r)
             else if e = CHR ''n'' then prepend [CHR 0x0A] (unquote_chars r)
             else if e = CHR ''r'' then prepend [CHR 0x0D] (unquote_chars r)
             else if e = CHR ''t'' then prepend [CHR 0x09] (unquote_chars r)
             else if e = CHR ''u'' then
               (case hex4 r of
                  None \<Rightarrow> None
                | Some u \<Rightarrow>
                    if is_surrogate u then
                      (case (if take 2 (drop 4 r) = [bslash, CHR ''u'']
                             then (case hex4 (drop 6 r) of
                                     None \<Rightarrow> None | Some u2 \<Rightarrow> utf16_pair u u2)
                             else None) of
                         Some dec \<Rightarrow> prepend (utf8_encode dec) (unquote_chars (drop 10 r))
                       | None \<Rightarrow> prepend replacement (unquote_chars (drop 4 r)))
                    else prepend (utf8_encode u) (unquote_chars (drop 4 r)))
             else None)
      else if byte c < 0x20 then None
      else if byte c < 0x80 then prepend [c] (unquote_chars cs)
      else if utf8_size (c # cs) = 0 then prepend replacement (unquote_chars cs)
      else prepend (c # take (utf8_size (c # cs) - 1) cs)
             (unquote_chars (drop (utf8_size (c # cs) - 1) cs)))"
  by pat_completeness auto
termination
  by (relation "measure length") auto

declare unquote_chars.simps [simp del]

lemma prepend_Some:
  "prepend x y = Some (t, r) \<longleftrightarrow> (\<exists>t'. y = Some (t', r) \<and> t = x @ t')"
  by (auto simp: prepend_def split: option.splits)

lemma unquote_chars_shorter_aux:
  "length s \<le> n \<Longrightarrow> unquote_chars s = Some (t, r) \<Longrightarrow> length r < length s"
proof (induction n arbitrary: s t r)
  case 0
  then show ?case by (simp add: unquote_chars.simps)
next
  case (Suc n)
  have IH: "\<And>s t r. unquote_chars s = Some (t, r) \<Longrightarrow> length s \<le> n \<Longrightarrow> length r < length s"
    using Suc.IH by blast
  show ?case
  proof (cases s)
    case Nil
    with Suc.prems show ?thesis by (simp add: unquote_chars.simps)
  next
    case (Cons c cs)
    then have len: "length cs \<le> n"
      using Suc.prems by simp
    show ?thesis
      using Suc.prems(2) len unfolding Cons
      apply (subst (asm) unquote_chars.simps)
      apply (simp split: if_splits list.splits option.splits add: prepend_Some)
      apply (auto dest!: IH)
      done
  qed
qed

lemma unquote_chars_shorter:
  "unquote_chars s = Some (t, r) \<Longrightarrow> length r < length s"
  using unquote_chars_shorter_aux [of s "length s" t r] by simp

definition is_digit :: "char \<Rightarrow> bool" where
  "is_digit c = (48 \<le> byte c \<and> byte c \<le> 57)"

definition is_space :: "char \<Rightarrow> bool" where
  "is_space c = (c = CHR '' '' \<or> byte c = 0x09 \<or> byte c = 0x0D \<or> byte c = 0x0A)"

text \<open>
  A number literal at the head of the text, by the grammar of the scanner: an optional
  minus, an integer part without leading zero, an optional fraction, an optional
  exponent. The result is the literal and what follows it.
\<close>

definition lex_int_part :: "string \<Rightarrow> (string \<times> string) option" where
  "lex_int_part s =
     (case s of
        [] \<Rightarrow> None
      | c # r \<Rightarrow>
          if c = CHR ''0'' then Some ([c], r)
          else if is_digit c then Some (c # takeWhile is_digit r, dropWhile is_digit r)
          else None)"

definition lex_digits1 :: "string \<Rightarrow> (string \<times> string) option" where
  "lex_digits1 s =
     (if takeWhile is_digit s = [] then None
      else Some (takeWhile is_digit s, dropWhile is_digit s))"

definition lex_frac :: "string \<Rightarrow> (string \<times> string) option" where
  "lex_frac s =
     (case s of
        c # r \<Rightarrow> if c = CHR ''.'' then prepend [c] (lex_digits1 r) else Some ([], s)
      | [] \<Rightarrow> Some ([], s))"

definition lex_exp :: "string \<Rightarrow> (string \<times> string) option" where
  "lex_exp s =
     (case s of
        c # r \<Rightarrow>
          if c = CHR ''e'' \<or> c = CHR ''E'' then
            (case r of
               d # r' \<Rightarrow>
                 if d = CHR ''+'' \<or> d = CHR ''-'' then prepend [c, d] (lex_digits1 r')
                 else prepend [c] (lex_digits1 r)
             | [] \<Rightarrow> None)
          else Some ([], s)
      | [] \<Rightarrow> Some ([], s))"

definition lex_number :: "string \<Rightarrow> (string \<times> string) option" where
  "lex_number s =
     (case (case s of c # r \<Rightarrow> if c = CHR ''-'' then prepend [c] (lex_int_part r) else lex_int_part s
                    | [] \<Rightarrow> None) of
        None \<Rightarrow> None
      | Some (i, s1) \<Rightarrow>
          (case lex_frac s1 of
             None \<Rightarrow> None
           | Some (f, s2) \<Rightarrow>
               (case lex_exp s2 of
                  None \<Rightarrow> None
                | Some (e, s3) \<Rightarrow> Some (i @ f @ e, s3))))"


lemma lex_digits1_shorter: "lex_digits1 s = Some (t, r) \<Longrightarrow> length r \<le> length s"
  by (auto simp: lex_digits1_def length_dropWhile_le split: if_splits)

lemma lex_int_part_shorter: "lex_int_part s = Some (t, r) \<Longrightarrow> length r < length s"
  by (auto simp: lex_int_part_def length_dropWhile_le less_Suc_eq_le split: list.splits if_splits)

lemma lex_frac_shorter: "lex_frac s = Some (t, r) \<Longrightarrow> length r \<le> length s"
  by (auto simp: lex_frac_def prepend_Some le_Suc_eq split: list.splits if_splits
      dest!: lex_digits1_shorter)

lemma lex_exp_shorter: "lex_exp s = Some (t, r) \<Longrightarrow> length r \<le> length s"
  by (auto simp: lex_exp_def prepend_Some split: list.splits if_splits
      dest!: lex_digits1_shorter)

lemma lex_number_shorter: "lex_number s = Some (t, r) \<Longrightarrow> length r < length s"
  by (fastforce simp: lex_number_def prepend_Some split: list.splits if_splits option.splits
      dest!: lex_int_part_shorter lex_frac_shorter lex_exp_shorter)

datatype token = TLBrace | TRBrace | TLBrack | TRBrack | TColon | TComma | TVal json

definition cons_tok :: "token \<Rightarrow> token list option \<Rightarrow> token list option" where
  "cons_tok t r = (case r of None \<Rightarrow> None | Some ts \<Rightarrow> Some (t # ts))"

text \<open>
  The text cut into tokens; \<open>None\<close> where the scanner reports a syntax error inside a
  token. Between tokens it skips the four white-space bytes of JSON.
\<close>

function tokens :: "string \<Rightarrow> token list option" where
  "tokens [] = Some []"
| "tokens (c # cs) =
     (if is_space c then tokens cs
      else if c = CHR ''{'' then cons_tok TLBrace (tokens cs)
      else if c = CHR ''}'' then cons_tok TRBrace (tokens cs)
      else if c = CHR ''['' then cons_tok TLBrack (tokens cs)
      else if c = CHR '']'' then cons_tok TRBrack (tokens cs)
      else if c = CHR '':'' then cons_tok TColon (tokens cs)
      else if c = CHR '','' then cons_tok TComma (tokens cs)
      else if c = dquote then
        (case unquote_chars cs of
           None \<Rightarrow> None
         | Some sr \<Rightarrow> cons_tok (TVal (JStr (fst sr))) (tokens (snd sr)))
      else if c = CHR ''t'' then
        (if take 3 cs = ''rue'' then cons_tok (TVal (JBool True)) (tokens (drop 3 cs)) else None)
      else if c = CHR ''f'' then
        (if take 4 cs = ''alse'' then cons_tok (TVal (JBool False)) (tokens (drop 4 cs)) else None)
      else if c = CHR ''n'' then
        (if take 3 cs = ''ull'' then cons_tok (TVal JNull) (tokens (drop 3 cs)) else None)
      else if c = CHR ''-'' \<or> is_digit c then
        (case lex_number (c # cs) of
           None \<Rightarrow> None
         | Some nr \<Rightarrow> cons_tok (TVal (JNum (fst nr))) (tokens (snd nr)))
      else None)"
  by pat_completeness auto
termination
proof (relation "measure length")
  fix c cs sr
  assume "unquote_chars cs = Some sr"
  then show "(snd sr, c # cs) \<in> measure length"
    using unquote_chars_shorter [of cs "fst sr" "snd sr"] by simp
next
  fix c cs nr
  assume "lex_number (c # cs) = Some nr"
  then show "(snd nr, c # cs) \<in> measure length"
    using lex_number_shorter [of "c # cs" "fst nr" "snd nr"] by simp
qed auto

declare tokens.simps [simp del]

text \<open>
  The grammar of values over the tokens, with the stack of the open arrays and
  objects. An object keeps its members as written, in order and with repetitions.
\<close>

datatype ctx = InArr "json list" | InObj "(string \<times> json) list" string

fun pval :: "ctx list \<Rightarrow> token list \<Rightarrow> json option"
  and pkey :: "(string \<times> json) list \<Rightarrow> ctx list \<Rightarrow> token list \<Rightarrow> json option"
  and pafter :: "json \<Rightarrow> ctx list \<Rightarrow> token list \<Rightarrow> json option" where
  "pval st [] = None"
| "pval st (t # ts) =
     (case t of
        TVal v \<Rightarrow> pafter v st ts
      | TLBrack \<Rightarrow>
          (case ts of
             TRBrack # ts' \<Rightarrow> pafter (JArr []) st ts'
           | _ \<Rightarrow> pval (InArr [] # st) ts)
      | TLBrace \<Rightarrow>
          (case ts of
             TRBrace # ts' \<Rightarrow> pafter (JObj []) st ts'
           | _ \<Rightarrow> pkey [] st ts)
      | _ \<Rightarrow> None)"
| "pkey acc st [] = None"
| "pkey acc st (t # ts) =
     (case t of
        TVal (JStr k) \<Rightarrow>
          (case ts of
             TColon # ts' \<Rightarrow> pval (InObj acc k # st) ts'
           | _ \<Rightarrow> None)
      | _ \<Rightarrow> None)"
| "pafter v [] ts = (if ts = [] then Some v else None)"
| "pafter v (c # st) [] = None"
| "pafter v (c # st) (t # ts) =
     (case c of
        InArr acc \<Rightarrow>
          (case t of
             TComma \<Rightarrow> pval (InArr (acc @ [v]) # st) ts
           | TRBrack \<Rightarrow> pafter (JArr (acc @ [v])) st ts
           | _ \<Rightarrow> None)
      | InObj acc k \<Rightarrow>
          (case t of
             TComma \<Rightarrow> pkey (acc @ [(k, v)]) st ts
           | TRBrace \<Rightarrow> pafter (JObj (acc @ [(k, v)])) st ts
           | _ \<Rightarrow> None))"

definition parse_json :: "string \<Rightarrow> json option" where
  "parse_json s = (case tokens s of None \<Rightarrow> None | Some ts \<Rightarrow> pval [] ts)"

text \<open>
  The value the decoder stores into an \<open>interface{}\<close>: every object becomes a Go map,
  where a repeated key keeps its last value.
\<close>

fun canon :: "json \<Rightarrow> json" where
  "canon (JArr vs) = JArr (map canon vs)"
| "canon (JObj kvs) = JObj (go_map (map (\<lambda>kv. (fst kv, canon (snd kv))) kvs))"
| "canon v = v"

text \<open>
  The name of a key folded for the comparison with the field names: ASCII letters in
  upper case, and the long s (U+017F) as S. (The Kelvin sign folds to K; no field name
  has a k.)
\<close>

fun fold_name :: "string \<Rightarrow> string" where
  "fold_name [] = []"
| "fold_name [c] = [if 97 \<le> byte c \<and> byte c \<le> 122 then char_of (byte c - 32) else c]"
| "fold_name (c # d # cs) =
     (if c = CHR 0xC5 \<and> d = CHR 0xBF then CHR ''S'' # fold_name cs
      else (if 97 \<le> byte c \<and> byte c \<le> 122 then char_of (byte c - 32) else c) # fold_name (d # cs))"

definition is_int_literal :: "string \<Rightarrow> bool" where
  "is_int_literal s =
     (case s of
        [] \<Rightarrow> False
      | c # r \<Rightarrow> if c = CHR ''-'' then r \<noteq> [] \<and> list_all is_digit r else list_all is_digit s)"

definition dec_value :: "string \<Rightarrow> nat" where
  "dec_value s = foldl (\<lambda>n c. 10 * n + (byte c - 48)) 0 s"

text \<open>
  \<open>strconv.ParseInt(s, 10, 64)\<close> on a number literal: \<open>None\<close> for a literal with a
  fraction or an exponent, and for a value outside int64.
\<close>

definition parse_int64 :: "string \<Rightarrow> 64 word option" where
  "parse_int64 s =
     (if is_int_literal s then
        (let i = (if hd s = CHR ''-'' then - int (dec_value (tl s)) else int (dec_value s))
         in if - (2 ^ 63) \<le> i \<and> i < 2 ^ 63 then Some (word_of_int i) else None)
      else None)"

definition zero_Message :: Message where
  "zero_Message = \<lparr>NodeID = [], Opcode = [], Arg = JNull, Requester = [], ReqID = 0, Status = []\<rparr>"

text \<open>
  One member of the object stored into the struct. A key that matches no field is
  skipped; \<open>null\<close> leaves a string or integer field as it is; a value of the wrong kind
  is an \<open>UnmarshalTypeError\<close>, with which \<open>json.Unmarshal\<close> returns.
\<close>

definition set_string :: "json \<Rightarrow> string \<Rightarrow> string option" where
  "set_string v old = (case v of JStr s \<Rightarrow> Some s | JNull \<Rightarrow> Some old | _ \<Rightarrow> None)"

definition set_int64 :: "json \<Rightarrow> 64 word \<Rightarrow> 64 word option" where
  "set_int64 v old = (case v of JNum n \<Rightarrow> parse_int64 n | JNull \<Rightarrow> Some old | _ \<Rightarrow> None)"

definition decode_member :: "Message \<Rightarrow> string \<times> json \<Rightarrow> Message option" where
  "decode_member m kv =
     (let f = fold_name (fst kv); v = snd kv in
      if f = ''NODEID'' then map_option (\<lambda>s. m\<lparr>NodeID := s\<rparr>) (set_string v (NodeID m))
      else if f = ''OPCODE'' then map_option (\<lambda>s. m\<lparr>Opcode := s\<rparr>) (set_string v (Opcode m))
      else if f = ''ARG'' then Some (m\<lparr>Arg := canon v\<rparr>)
      else if f = ''REQUESTER'' then map_option (\<lambda>s. m\<lparr>Requester := s\<rparr>) (set_string v (Requester m))
      else if f = ''REQID'' then map_option (\<lambda>n. m\<lparr>ReqID := n\<rparr>) (set_int64 v (ReqID m))
      else if f = ''STATUS'' then map_option (\<lambda>s. m\<lparr>Status := s\<rparr>) (set_string v (Status m))
      else Some m)"

fun decode_members :: "Message \<Rightarrow> (string \<times> json) list \<Rightarrow> Message option" where
  "decode_members m [] = Some m"
| "decode_members m (kv # kvs) =
     (case decode_member m kv of None \<Rightarrow> None | Some m' \<Rightarrow> decode_members m' kvs)"

text \<open>
  \<open>json.Unmarshal(data, &msg)\<close> for a fresh \<open>msg\<close>: \<open>None\<close> is any error. The text
  \<open>null\<close> is accepted and leaves the zero message; any other text that is not an
  object is refused.
\<close>

definition decode_Message :: "json \<Rightarrow> Message option" where
  "decode_Message v =
     (case v of
        JObj kvs \<Rightarrow> decode_members zero_Message kvs
      | JNull \<Rightarrow> Some zero_Message
      | _ \<Rightarrow> None)"

definition json_Unmarshal :: "string \<Rightarrow> Message option" where
  "json_Unmarshal s = (case parse_json s of None \<Rightarrow> None | Some v \<Rightarrow> decode_Message v)"



section \<open>The frame codec (proxy.go, lines 122-173)\<close>

text \<open>The envelope of \<open>sendMessage\<close> (line 131): \<open>fmt.Sprintf("!%s$", string(data))\<close>.\<close>

definition frame :: "string \<Rightarrow> string" where
  "frame data = CHR ''!'' # data @ ''$''"

text \<open>
  \<open>sendMessage\<close> takes the lock, encodes, and writes one frame; \<open>werr\<close> tells whether
  \<open>conn.Write\<close> reports an error, which is the value returned. The lock is released
  on the way out (\<open>defer\<close>), also when the write on a nil connection panics.
  \<open>json.Marshal\<close> cannot fail on the argument values of this model.
\<close>

definition sendMessage :: "bool \<Rightarrow> Message \<Rightarrow> Proxy \<Rightarrow> bool ctl \<times> Proxy \<times> event list" where
  "sendMessage werr msg p =
     (if mutex p then (Blocks, p, [])
      else
        (case conn p of
           None \<Rightarrow> (Panics, p, [])
         | Some c \<Rightarrow> (Returns werr, p, [Write c (frame (json_Marshal msg))])))"

text \<open>\<open>strings.Split\<close> with a separator of one byte, \<open>strings.HasPrefix\<close>, \<open>strings.TrimPrefix\<close>.\<close>

fun Split :: "string \<Rightarrow> char \<Rightarrow> string list" where
  "Split [] sep = [[]]"
| "Split (c # cs) sep =
     (if c = sep then [] # Split cs sep
      else (case Split cs sep of [] \<Rightarrow> [[c]] | part # parts \<Rightarrow> (c # part) # parts))"

definition HasPrefix :: "string \<Rightarrow> string \<Rightarrow> bool" where
  "HasPrefix s prefix = (take (length prefix) s = prefix)"

definition TrimPrefix :: "string \<Rightarrow> string \<Rightarrow> string" where
  "TrimPrefix s prefix = (if HasPrefix s prefix then drop (length prefix) s else s)"

text \<open>The loop of \<open>parseMessages\<close> over the parts, with the slice \<open>messages\<close> built so far.\<close>

fun parse_parts :: "Message list \<Rightarrow> string list \<Rightarrow> Message list" where
  "parse_parts messages [] = messages"
| "parse_parts messages (part # parts) =
     (if HasPrefix part ''!'' then
        (case json_Unmarshal (TrimPrefix part ''!'') of
           Some msg \<Rightarrow> parse_parts (messages @ [msg]) parts
         | None \<Rightarrow> parse_parts messages parts)
      else parse_parts messages parts)"

definition parseMessages :: "string \<Rightarrow> Message list" where
  "parseMessages buffer = parse_parts [] (Split buffer (CHR ''$''))"

section \<open>Session life cycle (proxy.go, lines 92-120 and 285-332)\<close>

definition login_Message :: "Config \<Rightarrow> Message" where
  "login_Message cfg =
     \<lparr>NodeID = ''*'', Opcode = ''LOGIN'',
      Arg = JStrMap (go_map
        [(''username'', Gateway_Username cfg),
         (''password'', Gateway_Password cfg),
         (''zkid'', Gateway_ZKID cfg),
         (''seq'', []),
         (''device'', []),
         (''version'', [])]),
      Requester = ''HJ_Server'', ReqID = 0, Status = []\<rparr>"

definition login :: "bool \<Rightarrow> Proxy \<Rightarrow> bool ctl \<times> Proxy \<times> event list" where
  "login werr p = sendMessage werr (login_Message (config p)) p"

text \<open>
  \<open>connect\<close>: \<open>dial\<close> is the connection \<open>net.Dial\<close> gives, \<open>None\<close> when it fails. The
  value returned tells whether the Go error is not nil.
\<close>

definition gateway_addr :: "Config \<Rightarrow> string" where
  "gateway_addr cfg = Gateway_Host cfg @ '':'' @ itoa (Gateway_Port cfg)"

definition connect :: "conn option \<Rightarrow> bool \<Rightarrow> Proxy \<Rightarrow> bool ctl \<times> Proxy \<times> event list" where
  "connect dial werr p =
     (case dial of
        None \<Rightarrow> (Returns True, p, [Dial (gateway_addr (config p))])
      | Some c \<Rightarrow>
          let p' = p\<lparr>conn := Some c, connected := True\<rparr>;
              r = login werr p'
          in (fst r, fst (snd r),
              [Dial (gateway_addr (config p)), Println LogConnected] @ snd (snd r)))"

definition queryNodeID :: "64 word \<Rightarrow> bool \<Rightarrow> string \<Rightarrow> Proxy \<Rightarrow> unit ctl \<times> Proxy \<times> event list" where
  "queryNodeID now werr nodeID p =
     (case sendMessage werr
             \<lparr>NodeID = nodeID, Opcode = ''QUERY'', Arg = JStr ''*'', Requester = ''HJ_Server'',
              ReqID = now, Status = []\<rparr> p of
        (Returns err, p', evs) \<Rightarrow> (Returns (), p', evs)
      | (Panics, p', evs) \<Rightarrow> (Panics, p', evs)
      | (Blocks, p', evs) \<Rightarrow> (Blocks, p', evs)
      | (Unfinished, p', evs) \<Rightarrow> (Unfinished, p', evs))"

text \<open>
  The loop of \<open>initState\<close> over the device indices that are left. \<open>env i\<close> is the clock
  and the outcome of the write at the query for index \<open>i\<close>.
\<close>

fun initState_loop :: "(nat \<Rightarrow> 64 word \<times> bool) \<Rightarrow> nat list \<Rightarrow> Proxy \<Rightarrow> event list
    \<Rightarrow> unit ctl \<times> Proxy \<times> event list" where
  "initState_loop env [] p evs = (Returns (), p, evs)"
| "initState_loop env (i # is) p evs =
     (case queryNodeID (fst (env i)) (snd (env i)) (itoa (int i)) p of
        (Returns u, p', evs') \<Rightarrow> initState_loop env is p' (evs @ evs')
      | (c, p', evs') \<Rightarrow> (c, p', evs @ evs'))"

definition initState :: "(nat \<Rightarrow> 64 word \<times> bool) \<Rightarrow> Proxy \<Rightarrow> unit ctl \<times> Proxy \<times> event list" where
  "initState env p =
     initState_loop env [1 ..< Suc (nat (Gateway_DeviceCount (config p)))] p []"

text \<open>
  \<open>reconnect\<close> loops while the proxy is not connected. Each element of \<open>dials\<close>
  describes one attempt: what \<open>net.Dial\<close> gives and whether the write of the login
  frame fails. When the list ends with the proxy still disconnected the outcome is
  \<open>Unfinished\<close>: the source would go on trying.
\<close>

fun reconnect :: "(conn option \<times> bool) list \<Rightarrow> (nat \<Rightarrow> 64 word \<times> bool) \<Rightarrow> Proxy
    \<Rightarrow> unit ctl \<times> Proxy \<times> event list" where
  "reconnect dials env p =
     (if connected p then (Returns (), p, [])
      else
        (case dials of
           [] \<Rightarrow> (Unfinished, p, [])
         | d # dials' \<Rightarrow>
             (case connect (fst d) (snd d) p of
                (Returns err, p', evs) \<Rightarrow>
                  if err then
                    (let r = reconnect dials' env p'
                     in (fst r, fst (snd r),
                         evs @ [Println LogReconnectionFailed, Sleep 10] @ snd (snd r)))
                  else
                    (let r = initState env p'
                     in (fst r, fst (snd r), evs @ [Go Receive, Go SendHeartbeat] @ snd (snd r)))
              | (Panics, p', evs) \<Rightarrow> (Panics, p', evs)
              | (Blocks, p', evs) \<Rightarrow> (Blocks, p', evs)
              | (Unfinished, p', evs) \<Rightarrow> (Unfinished, p', evs))))"

text \<open>
  \<open>handleDisconnect\<close> holds the lock from its first statement to its return. With the
  lock already held the call waits on \<open>Lock\<close> and does nothing else.
\<close>

definition handleDisconnect :: "(conn option \<times> bool) list \<Rightarrow> (nat \<Rightarrow> 64 word \<times> bool) \<Rightarrow> Proxy
    \<Rightarrow> unit ctl \<times> Proxy \<times> event list" where
  "handleDisconnect dials env p =
     (if mutex p then (Blocks, p, [])
      else if \<not> connected p then (Returns (), p, [])
      else
        let p' = p\<lparr>mutex := True, connected := False\<rparr>;
            evs = (case conn p of None \<Rightarrow> [] | Some c \<Rightarrow> [Close c])
                    @ [Println LogDisconnected, Sleep 10]
        in (case reconnect dials env p' of
              (Returns u, p'', evs') \<Rightarrow> (Returns (), p''\<lparr>mutex := False\<rparr>, evs @ evs')
            | (Panics, p'', evs') \<Rightarrow> (Panics, p''\<lparr>mutex := False\<rparr>, evs @ evs')
            | (c, p'', evs') \<Rightarrow> (c, p'', evs @ evs')))"

section \<open>The command gateway (proxy.go, lines 368-423)\<close>

text \<open>
  The handlers of the four routes share two pieces, which the spec names: sending a
  command (lines 378-386 and 407-415) and reading the cached state (lines 392 and
  421). \<open>bind\<close> is what \<open>c.BindJSON\<close> extracts from the request body, \<open>None\<close> when it
  fails; \<open>now\<close> is \<open>time.Now().Unix()\<close>.
\<close>

definition SendCommand :: "64 word \<Rightarrow> bool \<Rightarrow> string \<Rightarrow> string \<Rightarrow> Proxy \<Rightarrow> unit ctl \<times> Proxy \<times> event list" where
  "SendCommand now werr nodeId rawArg p =
     (case sendMessage werr
             \<lparr>NodeID = nodeId, Opcode = ''SWITCH'', Arg = JStr rawArg, Requester = ''HJ_Server'',
              ReqID = now, Status = []\<rparr> p of
        (Returns err, p', evs) \<Rightarrow> (Returns (), p'\<lparr>devices := (devices p')(nodeId \<mapsto> rawArg)\<rparr>, evs)
      | (Panics, p', evs) \<Rightarrow> (Panics, p', evs)
      | (Blocks, p', evs) \<Rightarrow> (Blocks, p', evs)
      | (Unfinished, p', evs) \<Rightarrow> (Unfinished, p', evs))"

definition ReadState :: "Proxy \<Rightarrow> string \<Rightarrow> string" where
  "ReadState p nodeId = lookup (devices p) nodeId"

datatype response = Respond nat string json

definition POST_command :: "string \<Rightarrow> string \<Rightarrow> string option \<Rightarrow> 64 word \<Rightarrow> bool \<Rightarrow> string \<Rightarrow> Proxy
    \<Rightarrow> response ctl \<times> Proxy \<times> event list" where
  "POST_command key token bind now werr nodeId p =
     (case bind of
        None \<Rightarrow> (Returns (Respond 400 ''error'' (JStr ''Invalid request'')), p, [])
      | Some arg \<Rightarrow>
          (case SendCommand now werr nodeId arg p of
             (Returns u, p', evs) \<Rightarrow> (Returns (Respond 200 key (JBool (arg = token))), p', evs)
           | (Panics, p', evs) \<Rightarrow> (Panics, p', evs)
           | (Blocks, p', evs) \<Rightarrow> (Blocks, p', evs)
           | (Unfinished, p', evs) \<Rightarrow> (Unfinished, p', evs)))"

definition POST_switch :: "string option \<Rightarrow> 64 word \<Rightarrow> bool \<Rightarrow> string \<Rightarrow> Proxy
    \<Rightarrow> response ctl \<times> Proxy \<times> event list" where
  "POST_switch = POST_command ''is_active'' ''ON''"

definition GET_switch :: "string \<Rightarrow> Proxy \<Rightarrow> response" where
  "GET_switch nodeId p = Respond 200 ''is_active'' (JBool (ReadState p nodeId = ''ON''))"

definition POST_curtain :: "string option \<Rightarrow> 64 word \<Rightarrow> bool \<Rightarrow> string \<Rightarrow> Proxy
    \<Rightarrow> response ctl \<times> Proxy \<times> event list" where
  "POST_curtain = POST_command ''is_open'' ''OPEN''"

definition GET_curtain :: "string \<Rightarrow> Proxy \<Rightarrow> response" where
  "GET_curtain nodeId p = Respond 200 ''is_open'' (JBool (ReadState p nodeId = ''OPEN''))"

section \<open>Well-formed messages and the reading of the spec\<close>

text \<open>
  The messages on which the round trip of the codec is stated. \<open>valid_utf8\<close> says that a
  string is a sequence of well-formed UTF-8 sequences; \<open>strings_of\<close> lists every string
  of a message, the keys of maps included. \<open>keys_sorted\<close> is the invariant of the
  representation of Go maps, at every depth. \<open>decoded_form\<close> is the value with every
  \<open>map[string]string\<close> turned into the \<open>map[string]interface{}\<close> with the same entries,
  the only form in which the decoder returns an object.

  A number inside an argument is a float64 in Go, and the encoder writes the shortest
  decimal text that reads back as the same float64. For an integer of magnitude up to
  \<open>2 ^ 53\<close> written in plain decimal form that text is the literal itself, so there the
  model, which keeps the literal, agrees with Go. \<open>numbers_plain\<close> says that every
  number of a value is of this kind; on other numbers the model does not follow Go,
  and the round trip is not stated for them.
\<close>

fun valid_utf8 :: "string \<Rightarrow> bool" where
  "valid_utf8 [] = True"
| "valid_utf8 (c # cs) =
     (utf8_size (c # cs) \<noteq> 0 \<and> valid_utf8 (drop (utf8_size (c # cs) - 1) cs))"

fun json_strings :: "json \<Rightarrow> string list" where
  "json_strings (JStr s) = [s]"
| "json_strings (JArr vs) = concat (map json_strings vs)"
| "json_strings (JObj kvs) = concat (map (\<lambda>kv. fst kv # json_strings (snd kv)) kvs)"
| "json_strings (JStrMap kvs) = concat (map (\<lambda>kv. [fst kv, snd kv]) kvs)"
| "json_strings v = []"


fun keys_sorted :: "json \<Rightarrow> bool" where
  "keys_sorted (JArr vs) = (\<forall>v\<in>set vs. keys_sorted v)"
| "keys_sorted (JObj kvs) =
     (sorted_wrt str_lt (map fst kvs) \<and> (\<forall>kv\<in>set kvs. keys_sorted (snd kv)))"
| "keys_sorted (JStrMap kvs) = sorted_wrt str_lt (map fst kvs)"
| "keys_sorted v = True"



fun decoded_form :: "json \<Rightarrow> json" where
  "decoded_form (JArr vs) = JArr (map decoded_form vs)"
| "decoded_form (JObj kvs) = JObj (map (\<lambda>kv. (fst kv, decoded_form (snd kv))) kvs)"
| "decoded_form (JStrMap kvs) = JObj (map (\<lambda>kv. (fst kv, JStr (snd kv))) kvs)"
| "decoded_form v = v"



fun iface_ok :: "json \<Rightarrow> bool" where
  "iface_ok (JStr s) = valid_utf8 s"
| "iface_ok (JArr vs) = (\<forall>v\<in>set vs. iface_ok v)"
| "iface_ok (JObj kvs) =
     (sorted_wrt str_lt (map fst kvs) \<and> (\<forall>kv\<in>set kvs. valid_utf8 (fst kv) \<and> iface_ok (snd kv)))"
| "iface_ok (JStrMap kvs) = False"
| "iface_ok v = True"








text \<open>
  The decoder in the words of the spec: a fragment is accepted when it begins with the
  leading sentinel and its remainder parses as a message body. \<open>join_sep\<close> puts the
  trailing sentinel back between the fragments of a buffer.
\<close>

definition spec_accept :: "string \<Rightarrow> Message option" where
  "spec_accept fragment =
     (case fragment of
        [] \<Rightarrow> None
      | c # body \<Rightarrow> if c = CHR ''!'' then json_Unmarshal body else None)"

fun join_sep :: "char \<Rightarrow> string list \<Rightarrow> string" where
  "join_sep sep [] = []"
| "join_sep sep [x] = x"
| "join_sep sep (x # y # ys) = x @ sep # join_sep sep (y # ys)"

section \<open>Concrete inputs\<close>

text \<open>
  A configuration with one curtain (node 7) and one light (node 5), a second one where
  node 7 is in both partitions, SWITCH reports, and frame bodies with the messages
  they decode to: two plain ones, one whose argument is an object holding a number, a
  boolean and an array, and one where the argument \<open>ON$\<close> is written with the escape
  \<open>\u0024\<close>.
\<close>

definition example_config :: Config where
  "example_config =
     \<lparr>Gateway_Host = ''192.168.1.10'', Gateway_Port = 5000,
      Gateway_Username = ''admin'', Gateway_Password = ''admin'', Gateway_ZKID = ''266590'',
      Gateway_DeviceCount = 2, Gateway_HeartbeatInterval = 30,
      HTTPServer_Host = ''0.0.0.0'', HTTPServer_Port = 8080,
      HomeAssistant_Host = ''ha.local'', HomeAssistant_Port = 8123,
      HomeAssistant_Token = ''secret'',
      Devices_Curtains = [''7'' \<mapsto> ''curtain_living''],
      Devices_Lights = [''5'' \<mapsto> ''light_kitchen''],
      Logging_Level = ''info'', Logging_File = ''proxy.log''\<rparr>"

definition switch_report :: "string \<Rightarrow> string \<Rightarrow> Message" where
  "switch_report nodeID arg =
     \<lparr>NodeID = nodeID, Opcode = ''SWITCH'', Arg = JStr arg, Requester = ''HJ_Server'',
      ReqID = 0, Status = []\<rparr>"

definition both_config :: Config where
  "both_config = example_config\<lparr>Devices_Lights := [''7'' \<mapsto> ''light_hall'', ''5'' \<mapsto> ''light_kitchen'']\<rparr>"



definition body1 :: string where
  \<open>body1 = ''{"nodeid":"5","opcode":"SWITCH","arg":"ON","requester":"HJ_Server","reqId":7}''\<close>

definition body2 :: string where
  \<open>body2 = '' {"nodeid":"*", "opcode":"LOGIN", "arg":{"zkid":"266590"}, "status":"success"}''\<close>

definition msg1 :: Message where
  "msg1 = \<lparr>NodeID = ''5'', Opcode = ''SWITCH'', Arg = JStr ''ON'', Requester = ''HJ_Server'',
     ReqID = 7, Status = []\<rparr>"

definition msg2 :: Message where
  "msg2 = \<lparr>NodeID = ''*'', Opcode = ''LOGIN'', Arg = JObj [(''zkid'', JStr ''266590'')],
     Requester = [], ReqID = 0, Status = ''success''\<rparr>"




section \<open>The router, the reconciler and the command gateway: properties\<close>

lemma normalize_cases:
  "normalize a = Some s \<longleftrightarrow> (s = ''on'' \<and> (a = ''ON'' \<or> a = ''OPEN'')) \<or> (s = ''off'' \<and> (a = ''OFF'' \<or> a = ''CLOSE''))"
  by (auto simp: normalize_def)

text \<open>
  Claim C1, as the code has it. A SWITCH report whose string argument is none of the
  four tokens is recorded raw in the Device State Map (line 198 runs before the
  \<open>switch\<close>) and does nothing else: the Entity State Map is untouched and there is no
  event at all, hence no downstream call. \<open>ON\<close> and \<open>OPEN\<close> normalize to \<open>on\<close>, \<open>OFF\<close>
  and \<open>CLOSE\<close> to \<open>off\<close>.
\<close>

theorem C1_unrecognized_token_only_raw_write:
  "(Arg msg = JStr a \<and> a \<notin> {''ON'', ''OPEN'', ''OFF'', ''CLOSE''} \<longrightarrow>
      handleSwitch reply msg p = (Returns (), p\<lparr>devices := (devices p)(NodeID msg \<mapsto> a)\<rparr>, []))
   \<and> normalize ''ON'' = Some ''on'' \<and> normalize ''OPEN'' = Some ''on''
   \<and> normalize ''OFF'' = Some ''off'' \<and> normalize ''CLOSE'' = Some ''off''"
  by (simp add: handleSwitch_def normalize_def)

theorem C1_witness:
  "handleSwitch DoError (switch_report ''5'' ''FOO'') (NewProxy example_config)
     = (Returns (), (NewProxy example_config)\<lparr>devices := [''5'' \<mapsto> ''FOO'']\<rparr>, [])"
  using C1_unrecognized_token_only_raw_write
    [of "switch_report ''5'' ''FOO''" "''FOO''" DoError "NewProxy example_config"]
  by (simp add: switch_report_def NewProxy_def)

theorem C1_counterexample:
  "devices (fst (snd (handleSwitch DoError (switch_report ''5'' ''FOO'') (NewProxy example_config))))
     \<noteq> devices (NewProxy example_config)"
proof -
  have "devices (fst (snd (handleSwitch DoError (switch_report ''5'' ''FOO'') (NewProxy example_config)))) ''5''
          = Some ''FOO''"
    by (simp add: handleSwitch_def normalize_def switch_report_def NewProxy_def)
  moreover have "devices (NewProxy example_config) ''5'' = None"
    by (simp add: NewProxy_def)
  ultimately show ?thesis by (metis option.distinct(1))
qed

lemma reconcile_same:
  "lookup (entity p) E = S \<Longrightarrow> reconcile reply E S p = (Returns (), p, [])"
  by (simp add: reconcile_def)

lemma reconcile_entity:
  "lookup (entity (fst (snd (reconcile reply E S p)))) E = S"
  by (simp add: reconcile_def lookup_def Let_def)

lemma reconcile_http_count:
  "length (filter is_http (snd (snd (reconcile reply E S p)))) \<le> 1"
  by (cases reply) (simp_all add: reconcile_def updateHomeAssistant_def Let_def)

lemma handleSwitch_twice:
  "snd (snd (handleSwitch r2 msg (fst (snd (handleSwitch r1 msg p))))) = []"
proof (cases "Arg msg")
  case (JStr a)
  show ?thesis
  proof (cases "normalize a")
    case None
    with JStr show ?thesis by (simp add: handleSwitch_def)
  next
    case (Some s)
    show ?thesis
    proof (cases "resolveEntity (config p) (NodeID msg) = []")
      case True
      with JStr Some show ?thesis by (simp add: handleSwitch_def)
    next
      case False
      let ?p' = "p\<lparr>devices := (devices p)(NodeID msg \<mapsto> a)\<rparr>"
      let ?E = "resolveEntity (config p) (NodeID msg)"
      let ?q = "fst (snd (reconcile r1 ?E s ?p'))"
      have first: "fst (snd (handleSwitch r1 msg p)) = ?q"
        using JStr Some False by (simp add: handleSwitch_def Let_def)
      have cfg: "config ?q = config p"
        by (simp add: reconcile_def Let_def)
      have "lookup (entity ?q) ?E = s"
        by (rule reconcile_entity)
      then have "lookup (entity (?q\<lparr>devices := (devices ?q)(NodeID msg \<mapsto> a)\<rparr>)) ?E = s"
        by simp
      then have "reconcile r2 ?E s (?q\<lparr>devices := (devices ?q)(NodeID msg \<mapsto> a)\<rparr>)
                   = (Returns (), ?q\<lparr>devices := (devices ?q)(NodeID msg \<mapsto> a)\<rparr>, [])"
        by (rule reconcile_same)
      then show ?thesis
        using JStr Some False cfg by (simp add: handleSwitch_def first Let_def)
    qed
  qed
qed (simp_all add: handleSwitch_def)

text \<open>
  Claim C2. Reconciling \<open>(E, S)\<close> when the Entity State Map already holds \<open>S\<close> for \<open>E\<close>
  changes nothing and emits nothing; reconciling twice in a row, whatever the sink
  answers, emits nothing the second time and at most one HTTP call in all; and the same
  SWITCH report handled twice emits nothing the second time.
\<close>

theorem C2_reconcile_idempotent:
  "(lookup (entity p) E = S \<longrightarrow> reconcile reply E S p = (Returns (), p, []))
   \<and> snd (snd (reconcile r2 E S (fst (snd (reconcile r1 E S p))))) = []
   \<and> length (filter is_http (snd (snd (reconcile r1 E S p))
        @ snd (snd (reconcile r2 E S (fst (snd (reconcile r1 E S p))))))) \<le> 1
   \<and> snd (snd (handleSwitch r2 msg (fst (snd (handleSwitch r1 msg p))))) = []"
proof -
  have second: "snd (snd (reconcile r2 E S (fst (snd (reconcile r1 E S p))))) = []"
    using reconcile_same [OF reconcile_entity [of r1 E S p], of r2] by simp
  show ?thesis
    using second reconcile_http_count [of r1 E S p]
    by (simp add: reconcile_same handleSwitch_twice)
qed

theorem C2_witness:
  "reconcile DoError ''light_kitchen'' ''on''
      ((NewProxy example_config)\<lparr>entity := [''light_kitchen'' \<mapsto> ''on'']\<rparr>)
     = (Returns (), (NewProxy example_config)\<lparr>entity := [''light_kitchen'' \<mapsto> ''on'']\<rparr>, [])"
  using C2_reconcile_idempotent
    [of "(NewProxy example_config)\<lparr>entity := [''light_kitchen'' \<mapsto> ''on'']\<rparr>"
        "''light_kitchen''" "''on''" DoError]
  by (simp add: lookup_def)

lemma go_quote_on: \<open>go_quote ''on'' = ''"on"''\<close>
  by (simp add: go_quote_def htmlSafe_def byte_def dquote_def bslash_def)

lemma go_quote_off: \<open>go_quote ''off'' = ''"off"''\<close>
  by (simp add: go_quote_def htmlSafe_def byte_def dquote_def bslash_def)

lemma go_quote_state: \<open>go_quote ''state'' = ''"state"''\<close>
  by (simp add: go_quote_def htmlSafe_def byte_def dquote_def bslash_def)

lemma handleSwitch_changed:
  assumes "Arg msg = JStr a" and "normalize a = Some S"
    and "resolveEntity (config p) (NodeID msg) = E" and "E \<noteq> []"
    and "lookup (entity p) E \<noteq> S"
  shows "handleSwitch reply msg p =
           (fst (updateHomeAssistant reply p (''switch.'' @ E) S),
            p\<lparr>devices := (devices p)(NodeID msg \<mapsto> a), entity := (entity p)(E \<mapsto> S)\<rparr>,
            snd (updateHomeAssistant reply p (''switch.'' @ E) S))"
  using assms
  by (simp add: handleSwitch_def reconcile_def Let_def updateHomeAssistant_def split: ha_reply.splits)

text \<open>
  Claim C4, as the code has it. When a SWITCH report changes the state of entity \<open>E\<close>
  and the request can be built, the only HTTP call is a POST to
  \<open>/api/states/switch.E\<close> on the configured host and port, with the bearer token, the
  JSON content type, and the body \<open>{"state":"on"}\<close> or \<open>{"state":"off"}\<close>. The entity id of
  the registry is prefixed with \<open>switch.\<close> (line 228).
\<close>

theorem C4_request_shape:
  assumes "Arg msg = JStr a" and "normalize a = Some S"
    and "resolveEntity (config p) (NodeID msg) = E" and "E \<noteq> []"
    and "lookup (entity p) E \<noteq> S" and "reply \<noteq> NewRequestError"
  shows \<open>filter is_http (snd (snd (handleSwitch reply msg p))) =
           [Do \<lparr>Method = ''POST'',
                URL = ''http://'' @ HomeAssistant_Host (config p) @ '':''
                        @ itoa (HomeAssistant_Port (config p)) @ ''/api/states/switch.'' @ E,
                Header = [(''Authorization'', ''Bearer '' @ HomeAssistant_Token (config p)),
                          (''Content-Type'', ''application/json'')],
                Body = (if S = ''on'' then ''{"state":"on"}'' else ''{"state":"off"}'')\<rparr>]\<close>
proof -
  have S: "S = ''on'' \<or> S = ''off''"
    using assms(2) by (auto simp: normalize_def split: if_splits)
  have body: \<open>Body (ha_request (config p) (''switch.'' @ E) S)
                = (if S = ''on'' then ''{"state":"on"}'' else ''{"state":"off"}'')\<close>
    using S by (auto simp: ha_request_def go_quote_on go_quote_off go_quote_state)
  have req: \<open>ha_request (config p) (''switch.'' @ E) S =
           \<lparr>Method = ''POST'',
                URL = ''http://'' @ HomeAssistant_Host (config p) @ '':''
                        @ itoa (HomeAssistant_Port (config p)) @ ''/api/states/switch.'' @ E,
                Header = [(''Authorization'', ''Bearer '' @ HomeAssistant_Token (config p)),
                          (''Content-Type'', ''application/json'')],
                Body = (if S = ''on'' then ''{"state":"on"}'' else ''{"state":"off"}'')\<rparr>\<close>
    using body by (simp add: ha_request_def ha_url_def)
  have "filter is_http (snd (updateHomeAssistant reply p (''switch.'' @ E) S))
          = [Do (ha_request (config p) (''switch.'' @ E) S)]"
    using assms(6) by (cases reply) (simp_all add: updateHomeAssistant_def)
  then show ?thesis
    using handleSwitch_changed [OF assms(1-5), of reply] req by simp
qed

lemma itoa_8123: "itoa 8123 = ''8123''"
  by (simp add: itoa_def dec_nat.simps digit_def)

theorem C4_witness:
  \<open>filter is_http (snd (snd (handleSwitch (DoStatus 200) (switch_report ''5'' ''ON'')
       (NewProxy example_config)))) =
     [Do \<lparr>Method = ''POST'',
          URL = ''http://ha.local:8123/api/states/switch.light_kitchen'',
          Header = [(''Authorization'', ''Bearer secret''),
                    (''Content-Type'', ''application/json'')],
          Body = ''{"state":"on"}''\<rparr>]\<close>
  using C4_request_shape [of "switch_report ''5'' ''ON''" "''ON''" "''on''"
      "NewProxy example_config" "''light_kitchen''" "DoStatus 200"]
  by (simp add: switch_report_def normalize_def resolveEntity_def NewProxy_def
      example_config_def lookup_def itoa_8123)

theorem C4_counterexample:
  \<open>Do \<lparr>Method = ''POST'',
        URL = ''http://ha.local:8123/api/states/light_kitchen'',
        Header = [(''Authorization'', ''Bearer secret''),
                  (''Content-Type'', ''application/json'')],
        Body = ''{"state":"on"}''\<rparr>
     \<notin> set (snd (snd (handleSwitch (DoStatus 200) (switch_report ''5'' ''ON'')
              (NewProxy example_config))))\<close>
  by (simp add: handleSwitch_def reconcile_def updateHomeAssistant_def ha_request_def
      ha_url_def switch_report_def normalize_def resolveEntity_def NewProxy_def
      example_config_def lookup_def itoa_8123 Let_def)

text \<open>
  Claim C6. A node id of the curtain partition resolves to the curtain's entry,
  whatever the light partition holds, and a changed state is recorded under that
  entry; a node id in neither partition resolves to nothing, and its report leaves
  the Entity State Map alone and emits no event.
\<close>

theorem C6_registry_lookup:
  "(Devices_Curtains (config p) (NodeID msg) = Some e \<longrightarrow>
      resolveEntity (config p) (NodeID msg) = e
      \<and> (Arg msg = JStr a \<and> normalize a = Some S \<and> e \<noteq> [] \<and> lookup (entity p) e \<noteq> S \<longrightarrow>
           entity (fst (snd (handleSwitch reply msg p))) = (entity p)(e \<mapsto> S)))
   \<and> (Devices_Curtains (config p) (NodeID msg) = None
        \<and> Devices_Lights (config p) (NodeID msg) = None \<longrightarrow>
        resolveEntity (config p) (NodeID msg) = []
        \<and> entity (fst (snd (handleSwitch reply msg p))) = entity p
        \<and> snd (snd (handleSwitch reply msg p)) = [])"
proof (intro conjI impI)
  assume c: "Devices_Curtains (config p) (NodeID msg) = Some e"
  then show r: "resolveEntity (config p) (NodeID msg) = e"
    by (simp add: resolveEntity_def lookup_def)
  assume "Arg msg = JStr a \<and> normalize a = Some S \<and> e \<noteq> [] \<and> lookup (entity p) e \<noteq> S"
  then show "entity (fst (snd (handleSwitch reply msg p))) = (entity p)(e \<mapsto> S)"
    using handleSwitch_changed [of msg a S p e reply] r by simp
next
  assume n: "Devices_Curtains (config p) (NodeID msg) = None
        \<and> Devices_Lights (config p) (NodeID msg) = None"
  then show r: "resolveEntity (config p) (NodeID msg) = []"
    by (simp add: resolveEntity_def)
  show "entity (fst (snd (handleSwitch reply msg p))) = entity p"
    using r by (simp add: handleSwitch_def Let_def split: json.splits option.splits)
  show "snd (snd (handleSwitch reply msg p)) = []"
    using r by (simp add: handleSwitch_def Let_def split: json.splits option.splits)
qed

theorem C6_witness:
  "resolveEntity (config (NewProxy both_config)) (NodeID (switch_report ''7'' ''OPEN'')) = ''curtain_living''
   \<and> entity (fst (snd (handleSwitch DoError (switch_report ''7'' ''OPEN'') (NewProxy both_config))))
        = [''curtain_living'' \<mapsto> ''on'']
   \<and> resolveEntity (config (NewProxy both_config)) (NodeID (switch_report ''9'' ''OPEN'')) = []
   \<and> entity (fst (snd (handleSwitch DoError (switch_report ''9'' ''OPEN'') (NewProxy both_config)))) = Map.empty
   \<and> snd (snd (handleSwitch DoError (switch_report ''9'' ''OPEN'') (NewProxy both_config))) = []"
  using C6_registry_lookup [of "NewProxy both_config" "switch_report ''7'' ''OPEN''"
      "''curtain_living''" "''OPEN''" "''on''" DoError]
    C6_registry_lookup [of "NewProxy both_config" "switch_report ''9'' ''OPEN''"
      "''curtain_living''" "''OPEN''" "''on''" DoError]
  by (simp add: switch_report_def normalize_def NewProxy_def both_config_def
      example_config_def lookup_def)

text \<open>
  Claim C7. After the reconciliation of a changed state the Entity State Map holds
  \<open>S\<close> for \<open>E\<close> whatever the sink answers (a failure of \<open>client.Do\<close>, any status code,
  even a request that cannot be built), and the request is issued at most once:
  exactly once when it can be built.
\<close>

theorem C7_no_rollback_no_retry:
  "lookup (entity p) E \<noteq> S \<Longrightarrow>
     entity (fst (snd (reconcile reply E S p))) = (entity p)(E \<mapsto> S)
     \<and> length (filter is_http (snd (snd (reconcile reply E S p)))) \<le> 1
     \<and> (reply \<noteq> NewRequestError \<longrightarrow>
          filter is_http (snd (snd (reconcile reply E S p)))
            = [Do (ha_request (config p) (''switch.'' @ E) S)])"
  by (cases reply) (simp_all add: reconcile_def updateHomeAssistant_def Let_def)

theorem C7_witness:
  "entity (fst (snd (reconcile DoError ''light_kitchen'' ''on'' (NewProxy example_config))))
     = [''light_kitchen'' \<mapsto> ''on'']
   \<and> entity (fst (snd (reconcile (DoStatus 500) ''light_kitchen'' ''on'' (NewProxy example_config))))
     = [''light_kitchen'' \<mapsto> ''on'']
   \<and> filter is_http (snd (snd (reconcile DoError ''light_kitchen'' ''on'' (NewProxy example_config))))
     = [Do (ha_request example_config ''switch.light_kitchen'' ''on'')]"
  using C7_no_rollback_no_retry [of "NewProxy example_config" "''light_kitchen''" "''on''" DoError]
    C7_no_rollback_no_retry [of "NewProxy example_config" "''light_kitchen''" "''on''" "DoStatus 500"]
  by (simp add: NewProxy_def lookup_def)

text \<open>
  Claim C8. A message whose opcode is not in the dispatch table is logged and dropped:
  the proxy is unchanged, in particular both maps, and the trace holds no network call.
\<close>

theorem C8_unknown_opcode_inert:
  "Opcode msg \<notin> {''CCU_HB'', ''SYNC_INFO'', ''SWITCH'', ''LOGIN''} \<Longrightarrow>
     handleMessage reply msg p = (Returns (), p, [Println LogUnhandled])
     \<and> devices (fst (snd (handleMessage reply msg p))) = devices p
     \<and> entity (fst (snd (handleMessage reply msg p))) = entity p
     \<and> filter is_network (snd (snd (handleMessage reply msg p))) = []"
  by (simp add: handleMessage_def handlers_def)

theorem C8_witness:
  "handleMessage DoError ((switch_report ''5'' ''ON'')\<lparr>Opcode := ''QUERY''\<rparr>) (NewProxy example_config)
     = (Returns (), NewProxy example_config, [Println LogUnhandled])"
  using C8_unknown_opcode_inert [of "(switch_report ''5'' ''ON'')\<lparr>Opcode := ''QUERY''\<rparr>" DoError
      "NewProxy example_config"]
  by (simp add: switch_report_def)

text \<open>
  Claim C3. When \<open>SendCommand N A\<close> returns, the Device State Map holds \<open>A\<close> for \<open>N\<close>
  and \<open>ReadState N\<close> gives \<open>A\<close>, with no reply from the gateway involved; the two GET
  routes answer with the flag computed from \<open>A\<close>. The call returns whenever the lock is
  free and a connection exists (\<open>SendCommand_returns\<close>); on a nil connection the write
  panics before the map is touched.
\<close>

theorem C3_command_optimism:
  "fst (SendCommand now werr N A p) = Returns () \<Longrightarrow>
     devices (fst (snd (SendCommand now werr N A p))) N = Some A
     \<and> ReadState (fst (snd (SendCommand now werr N A p))) N = A
     \<and> GET_switch N (fst (snd (SendCommand now werr N A p)))
          = Respond 200 ''is_active'' (JBool (A = ''ON''))
     \<and> GET_curtain N (fst (snd (SendCommand now werr N A p)))
          = Respond 200 ''is_open'' (JBool (A = ''OPEN''))"
  by (auto simp: SendCommand_def sendMessage_def ReadState_def lookup_def GET_switch_def
      GET_curtain_def split: if_splits option.splits)

lemma SendCommand_returns:
  "\<not> mutex p \<Longrightarrow> conn p = Some c \<Longrightarrow>
     SendCommand now werr N A p =
       (Returns (), p\<lparr>devices := (devices p)(N \<mapsto> A)\<rparr>,
        [Write c (frame (json_Marshal \<lparr>NodeID = N, Opcode = ''SWITCH'', Arg = JStr A,
           Requester = ''HJ_Server'', ReqID = now, Status = []\<rparr>))])"
  by (simp add: SendCommand_def sendMessage_def)

theorem C3_witness:
  "fst (SendCommand 1730000000 False ''5'' ''ON'' ((NewProxy example_config)\<lparr>conn := Some 1\<rparr>)) = Returns ()
   \<and> ReadState (fst (snd (SendCommand 1730000000 False ''5'' ''ON''
         ((NewProxy example_config)\<lparr>conn := Some 1\<rparr>)))) ''5'' = ''ON''"
  using C3_command_optimism [of 1730000000 False "''5''" "''ON''" "(NewProxy example_config)\<lparr>conn := Some 1\<rparr>"]
  by (simp add: SendCommand_returns NewProxy_def)

text \<open>
  Claim C10. \<open>handleDisconnect\<close> on a proxy that is not connected changes nothing and
  emits no event: the flag stays false, nothing is closed, the maps are unchanged and
  nothing is dialled. It returns when the lock is free, and waits on the lock otherwise.
\<close>

theorem C10_disconnect_idempotent:
  "\<not> connected p \<Longrightarrow>
     handleDisconnect dials env p = ((if mutex p then Blocks else Returns ()), p, [])"
  by (simp add: handleDisconnect_def)

theorem C10_witness:
  "handleDisconnect [(Some 2, False)] (\<lambda>i. (0, False)) (NewProxy example_config)
     = (Returns (), NewProxy example_config, [])"
  using C10_disconnect_idempotent [of "NewProxy example_config" "[(Some 2, False)]" "\<lambda>i. (0, False)"]
  by (simp add: NewProxy_def)

text \<open>
  An observation on the other branch of \<open>handleDisconnect\<close>: on a connected proxy the call
  never returns. It keeps the lock while \<open>reconnect\<close> runs, and the first successful
  \<open>net.Dial\<close> leads through \<open>connect\<close> and \<open>login\<close> to \<open>sendMessage\<close>, which waits for the
  same lock.
\<close>

lemma reconnect_under_lock:
  "mutex p \<Longrightarrow> fst (reconnect dials env p) = Returns () \<Longrightarrow> connected p"
proof (induction dials arbitrary: p)
  case Nil
  then show ?case by (simp split: if_splits)
next
  case (Cons d dials)
  show ?case
  proof (rule ccontr)
    assume nc: "\<not> connected p"
    show False
    proof (cases "fst d")
      case None
      then have "reconnect (d # dials) env p =
          (fst (reconnect dials env p), fst (snd (reconnect dials env p)),
           [Dial (gateway_addr (config p)), Println LogReconnectionFailed, Sleep 10]
             @ snd (snd (reconnect dials env p)))"
        using nc by (simp add: connect_def Let_def)
      with Cons.prems(2) have "fst (reconnect dials env p) = Returns ()"
        by simp
      with Cons.IH [OF Cons.prems(1)] nc show False by blast
    next
      case (Some c)
      then have "fst (reconnect (d # dials) env p) = Blocks"
        using nc Cons.prems(1) by (simp add: connect_def login_def sendMessage_def Let_def)
      with Cons.prems(2) show False by simp
    qed
  qed
qed

lemma handleDisconnect_connected:
  "connected p \<Longrightarrow> fst (handleDisconnect dials env p) \<noteq> Returns ()"
proof
  assume c: "connected p" and r: "fst (handleDisconnect dials env p) = Returns ()"
  let ?p = "p\<lparr>mutex := True, connected := False\<rparr>"
  from r c have "fst (reconnect dials env ?p) = Returns ()"
    by (auto simp: handleDisconnect_def Let_def split: if_splits prod.splits ctl.splits)
  from reconnect_under_lock [OF _ this] show False by simp
qed

section \<open>The codec: properties\<close>










































































lemma accept_part_eq:
  "(if HasPrefix part ''!'' then json_Unmarshal (TrimPrefix part ''!'') else None) = spec_accept part"
  by (cases part) (auto simp: HasPrefix_def TrimPrefix_def spec_accept_def)

lemma parse_parts_step:
  "parse_parts acc (part # parts) =
     parse_parts (case spec_accept part of None \<Rightarrow> acc | Some m \<Rightarrow> acc @ [m]) parts"
  by (cases part)
    (auto simp: HasPrefix_def TrimPrefix_def spec_accept_def split: option.splits)

lemma parse_parts_map_filter:
  "parse_parts acc parts = acc @ List.map_filter spec_accept parts"
proof (induction parts arbitrary: acc)
  case Nil
  show ?case by (simp add: List.map_filter_simps)
next
  case (Cons part parts)
  show ?case
    unfolding parse_parts_step
    by (cases "spec_accept part") (simp_all add: Cons.IH List.map_filter_simps)
qed

lemma Split_not_Nil: "Split s sep \<noteq> []"
  by (induction s) (auto split: list.splits)

lemma Split_parts_free: "part \<in> set (Split s sep) \<Longrightarrow> sep \<notin> set part"
  by (induction s arbitrary: part) (auto split: list.splits if_splits)

lemma join_sep_Cons: "ps \<noteq> [] \<Longrightarrow> join_sep sep ((c # p) # ps') = c # join_sep sep (p # ps')"
  by (cases ps') auto

lemma join_Split: "join_sep sep (Split s sep) = s"
proof (induction s)
  case Nil
  show ?case by simp
next
  case (Cons c s)
  show ?case
  proof (cases "c = sep")
    case True
    with Cons Split_not_Nil [of s sep] show ?thesis
      by (cases "Split s sep") auto
  next
    case False
    with Cons Split_not_Nil [of s sep] show ?thesis
      by (cases "Split s sep"; cases "tl (Split s sep)") auto
  qed
qed

lemma Split_body:
  "sep \<notin> set b \<Longrightarrow> Split (b @ sep # rest) sep = b # Split rest sep"
  by (induction b) auto

lemma Split_frames:
  "\<forall>b\<in>set bodies. CHR ''$'' \<notin> set b \<Longrightarrow>
     Split (concat (map frame bodies)) (CHR ''$'') = map ((#) (CHR ''!'')) bodies @ [[]]"
proof (induction bodies)
  case Nil
  show ?case by simp
next
  case (Cons b bodies)
  have free: "CHR ''$'' \<notin> set (CHR ''!'' # b)"
    using Cons.prems by simp
  have "concat (map frame (b # bodies)) = (CHR ''!'' # b) @ CHR ''$'' # concat (map frame bodies)"
    by (simp add: frame_def)
  then have "Split (concat (map frame (b # bodies))) (CHR ''$'')
               = (CHR ''!'' # b) # Split (concat (map frame bodies)) (CHR ''$'')"
    using Split_body [OF free] by simp
  then show ?case
    using Cons by simp
qed

lemma map_filter_frames:
  "map json_Unmarshal bodies = map Some ms \<Longrightarrow>
     List.map_filter spec_accept (map ((#) (CHR ''!'')) bodies @ [[]]) = ms"
proof (induction bodies arbitrary: ms)
  case Nil
  then show ?case by (simp add: List.map_filter_simps spec_accept_def)
next
  case (Cons b bodies)
  then obtain m ms' where ms: "ms = m # ms'" "json_Unmarshal b = Some m"
      "map json_Unmarshal bodies = map Some ms'"
    by (cases ms) auto
  with Cons.IH [of ms'] show ?case
    by (simp add: List.map_filter_simps spec_accept_def)
qed

text \<open>
  Claim C9. \<open>parseMessages\<close> returns, in order, the messages of exactly those parts of
  the buffer between \<open>$\<close> bytes that start with \<open>!\<close> and whose remainder
  \<open>json.Unmarshal\<close> accepts (\<open>spec_accept\<close>); every other part is skipped, and the
  result is a plain list, with no error. \<open>Split\<close> is the split on \<open>$\<close>: its parts hold no
  \<open>$\<close> and joined by \<open>$\<close> they give the buffer back. Frames \<open>!body$\<close> written one after
  the other, with bodies free of \<open>$\<close> that all decode, give all their messages in order.
\<close>

theorem C9_decoder_accepts:
  "parseMessages buffer = List.map_filter spec_accept (Split buffer (CHR ''$''))
   \<and> join_sep (CHR ''$'') (Split buffer (CHR ''$'')) = buffer
   \<and> (\<forall>part\<in>set (Split buffer (CHR ''$'')). CHR ''$'' \<notin> set part)
   \<and> ((\<forall>b\<in>set bodies. CHR ''$'' \<notin> set b) \<and> map json_Unmarshal bodies = map Some ms \<longrightarrow>
        parseMessages (concat (map frame bodies)) = ms)"
  using parse_parts_map_filter [of "[]"] join_Split Split_parts_free
    Split_frames [of bodies] map_filter_frames [of bodies ms]
  by (auto simp: parseMessages_def)

lemma unmarshal_bodies: "map json_Unmarshal [body1, body2] = map Some [msg1, msg2]"
  by code_simp

lemma bodies_free: "\<forall>b\<in>set [body1, body2]. CHR ''$'' \<notin> set b"
  by code_simp

theorem C9_witness:
  "parseMessages (concat (map frame [body1, body2])) = [msg1, msg2]"
  using C9_decoder_accepts [of "concat (map frame [body1, body2])" "[body1, body2]" "[msg1, msg2]"]
    unmarshal_bodies bodies_free
  by blast

text \<open>
  An example of the leniency: a part without the leading sentinel and a part whose body
  is cut short are skipped, and the frame after them is still decoded.
\<close>

lemma parseMessages_lenient:
  \<open>parseMessages (''noise$!{"nodeid":$'' @ frame body1) = [msg1]\<close>
  by code_simp

subsection \<open>The round trip of an encoded value\<close>








lemma iface_decoded:
  "iface_ok v \<Longrightarrow>
     keys_sorted v \<and> (\<forall>s\<in>set (json_strings v). valid_utf8 s) \<and> decoded_form v = v"
proof (induction v)
  case (JArr vs)
  then have ih: "keys_sorted v \<and> (\<forall>s\<in>set (json_strings v). valid_utf8 s) \<and> decoded_form v = v"
    if "v \<in> set vs" for v
    using that by simp
  then have "map decoded_form vs = vs"
    by (simp add: map_idI)
  with ih show ?case by simp
next
  case (JObj kvs)
  have ih: "keys_sorted (snd kv) \<and> (\<forall>s\<in>set (json_strings (snd kv)). valid_utf8 s)
      \<and> decoded_form (snd kv) = snd kv \<and> valid_utf8 (fst kv)" if "kv \<in> set kvs" for kv
  proof -
    have "snd kv \<in> Basic_BNFs.snds kv"
      by (cases kv) simp
    with JObj that show ?thesis by simp
  qed
  then have "map (\<lambda>kv. (fst kv, decoded_form (snd kv))) kvs = kvs"
    by (simp add: map_idI)
  with ih JObj.prems show ?case by simp
qed simp_all













subsection \<open>What the decoder returns\<close>





lemma seq_ascii: "byte c < 0x80 \<Longrightarrow> utf8_size [c] = length [c]"
  by (simp add: utf8_size_def)






















subsection \<open>The round trip of the frame codec\<close>

























end
